theory Spec2Isabelle
  imports Main "HOL-Library.Sublist"
begin

section \<open>Python strings: \<open>str.strip\<close> and \<open>str.lower\<close>\<close>

text \<open>
  A Python \<open>str\<close> is a sequence of code points. The model covers text over the code
  points U+0000 .. U+00FF: a \<^typ>\<open>char\<close> is one code point, \<^term>\<open>of_char c\<close> its number.
  On this range \<open>str.lower\<close> works code point by code point and \<open>str.strip\<close> with no
  argument removes the code points for which \<open>str.isspace\<close> holds:
  TAB, LF, VT, FF, CR, FS, GS, RS, US, SPACE, NEL (0x85) and NBSP (0xA0).
\<close>

definition py_isspace :: "char \<Rightarrow> bool" where
  "py_isspace c =
     (of_char c \<in> {9, 10, 11, 12, 13, 28, 29, 30, 31, 32, 133, 160 :: nat})"

text \<open>
  The code points with a lowercase partner 32 places up: A-Z, and the Latin-1 capitals
  0xC0 .. 0xDE without the multiplication sign 0xD7.
\<close>

definition py_isupper :: "char \<Rightarrow> bool" where
  "py_isupper c =
     (let n = of_char c :: nat
      in (65 \<le> n \<and> n \<le> 90) \<or> (192 \<le> n \<and> n \<le> 222 \<and> n \<noteq> 215))"

definition py_lower_char :: "char \<Rightarrow> char" where
  "py_lower_char c = (if py_isupper c then char_of (of_char c + 32 :: nat) else c)"

definition py_lower :: "string \<Rightarrow> string" where
  "py_lower s = map py_lower_char s"

definition py_strip :: "string \<Rightarrow> string" where
  "py_strip s = rev (dropWhile py_isspace (rev (dropWhile py_isspace s)))"


section \<open>The table: a pandas DataFrame with the columns \<open>name\<close> and \<open>email\<close>\<close>

text \<open>
  A column of text is stored by pandas with dtype \<open>object\<close>: its cells are Python strings
  or null (\<open>None\<close>/\<open>NaN\<close>, here \<^term>\<open>None\<close>). A column in which the constructor or the
  spreadsheet reader finds no string at all (no rows, or only \<open>NaN\<close>) is stored with
  dtype \<open>float64\<close>. The dtype belongs to the column, not to its cells: selecting rows keeps
  it. The \<open>.str\<close> accessor exists on \<open>object\<close> columns only; on a \<open>float64\<close> column
  pandas raises \<open>AttributeError: Can only use .str accessor with string values\<close>.
  A non-null cell of a \<open>float64\<close> column stands for a number; its content is never
  looked at, since every text operation on such a column raises.

  A row carries its index label, the two interpreted cells and, in \<open>other\<close>, the cells of
  all further columns, which the program never touches.
\<close>

datatype dtype = Object | Float64

datatype error = AttributeError

record 'a row =
  idx :: int
  name :: "string option"
  email :: "string option"
  other :: 'a

record 'a dataframe =
  name_dtype :: dtype
  email_dtype :: dtype
  rows :: "'a row list"

datatype column = Name | Email

type_synonym series = "dtype \<times> string option list"

text \<open>\<open>df[c]\<close>: the column as a Series.\<close>

fun getitem :: "'a dataframe \<Rightarrow> column \<Rightarrow> series" where
  "getitem df Name = (name_dtype df, map name (rows df))"
| "getitem df Email = (email_dtype df, map email (rows df))"

text \<open>
  \<open>df[c] = s\<close>: the column is replaced, cell by cell in row order, by a Series over the
  same index (the program only assigns Series computed from the frame itself).
\<close>

fun setitem :: "'a dataframe \<Rightarrow> column \<Rightarrow> series \<Rightarrow> 'a dataframe" where
  "setitem df Name (dt, xs) =
     df\<lparr>name_dtype := dt, rows := map2 (\<lambda>r x. r\<lparr>name := x\<rparr>) (rows df) xs\<rparr>"
| "setitem df Email (dt, xs) =
     df\<lparr>email_dtype := dt, rows := map2 (\<lambda>r x. r\<lparr>email := x\<rparr>) (rows df) xs\<rparr>"

text \<open>\<open>s.str.strip()\<close> and \<open>s.str.lower()\<close>: null cells stay null.\<close>

fun str_strip :: "series \<Rightarrow> error + series" where
  "str_strip (dt, xs) =
     (if dt = Object then Inr (Object, map (map_option py_strip) xs)
      else Inl AttributeError)"

fun str_lower :: "series \<Rightarrow> error + series" where
  "str_lower (dt, xs) =
     (if dt = Object then Inr (Object, map (map_option py_lower) xs)
      else Inl AttributeError)"

text \<open>\<open>s.str.strip().str.lower()\<close>\<close>

definition str_strip_lower :: "series \<Rightarrow> error + series" where
  "str_strip_lower s = (case str_strip s of Inl e \<Rightarrow> Inl e | Inr t \<Rightarrow> str_lower t)"

text \<open>\<open>s.notna()\<close>, \<open>s != v\<close> (a null cell differs from every string) and \<open>mask.any()\<close>.\<close>

fun notna :: "series \<Rightarrow> bool list" where
  "notna (dt, xs) = map (\<lambda>x. x \<noteq> None) xs"

fun ne :: "series \<Rightarrow> string \<Rightarrow> bool list" where
  "ne (dt, xs) v = map (\<lambda>x. x \<noteq> Some v) xs"

definition any_true :: "bool list \<Rightarrow> bool" where
  "any_true m = (True \<in> set m)"

text \<open>\<open>df[mask]\<close>: a new frame with the rows whose mask entry is true, in order.\<close>

definition getitem_mask :: "'a dataframe \<Rightarrow> bool list \<Rightarrow> 'a dataframe" where
  "getitem_mask df m = df\<lparr>rows := map fst (filter snd (zip (rows df) m))\<rparr>"

text \<open>
  \<open>s.duplicated(keep='first')\<close>: an entry is true when the same value occurred at an
  earlier position; \<open>seen\<close> holds the values met so far.
\<close>

fun duplicated :: "'k list \<Rightarrow> 'k list \<Rightarrow> bool list" where
  "duplicated seen [] = []"
| "duplicated seen (x # xs) = (x \<in> set seen) # duplicated (x # seen) xs"

text \<open>\<open>df.drop_duplicates(subset=['email'], keep='first')\<close>\<close>

definition drop_duplicates :: "'a dataframe \<Rightarrow> 'a dataframe" where
  "drop_duplicates df =
     getitem_mask df (map Not (duplicated [] (snd (getitem df Email))))"

text \<open>\<open>df.reset_index(drop=True)\<close>: the labels become 0, 1, 2, ...\<close>

definition reset_index :: "'a dataframe \<Rightarrow> 'a dataframe" where
  "reset_index df =
     df\<lparr>rows := map2 (\<lambda>i r. r\<lparr>idx := int i\<rparr>) [0..<length (rows df)] (rows df)\<rparr>"


section \<open>Objects and references\<close>

text \<open>
  Python variables hold references. The store is the list of all DataFrame objects
  allocated so far, and a reference is a position in it. \<open>df.copy()\<close> (a deep copy) and
  every operation that returns a frame put a new object at the end of the store;
  \<open>df[c] = s\<close> overwrites the object it is applied to.
\<close>

type_synonym addr = nat

type_synonym 'a heap = "'a dataframe list"

definition alloc :: "'a heap \<Rightarrow> 'a dataframe \<Rightarrow> 'a heap \<times> addr" where
  "alloc h df = (h @ [df], length h)"

definition copy :: "'a heap \<Rightarrow> addr \<Rightarrow> 'a heap \<times> addr" where
  "copy h a = alloc h (h ! a)"

definition store_col :: "'a heap \<Rightarrow> addr \<Rightarrow> column \<Rightarrow> series \<Rightarrow> 'a heap" where
  "store_col h a c s = h[a := setitem (h ! a) c s]"


section \<open>\<open>clean_dataframe\<close> of src/transform.py\<close>

text \<open>
  \<^verbatim>\<open>
  def clean_dataframe(df):
      cleaned_df = df.copy()
      cleaned_df['name'] = cleaned_df['name'].str.strip().str.lower()
      cleaned_df['email'] = cleaned_df['email'].str.strip().str.lower()
      cleaned_df = cleaned_df[cleaned_df['email'].notna()]
      cleaned_df = cleaned_df[cleaned_df['email'] != '']
      cleaned_df = cleaned_df.drop_duplicates(subset=['email'], keep='first')
      cleaned_df = cleaned_df.reset_index(drop=True)
      return cleaned_df
  \<close>
  The function takes the store and the reference \<open>df\<close> and returns the store after the
  call together with the exception raised or the reference returned. The variables
  \<open>h\<close> and \<open>cleaned_df\<close> are rebound statement by statement, as in the source.
\<close>

definition clean_dataframe :: "'a heap \<Rightarrow> addr \<Rightarrow> 'a heap \<times> (error + addr)" where
  "clean_dataframe h df =
     (let (h, cleaned_df) = copy h df
      in (case str_strip_lower (getitem (h ! cleaned_df) Name) of
            Inl e \<Rightarrow> (h, Inl e)
          | Inr s \<Rightarrow>
             (let h = store_col h cleaned_df Name s
              in (case str_strip_lower (getitem (h ! cleaned_df) Email) of
                    Inl e \<Rightarrow> (h, Inl e)
                  | Inr s \<Rightarrow>
                     (let h = store_col h cleaned_df Email s;
                          (h, cleaned_df) = alloc h (getitem_mask (h ! cleaned_df)
                             (notna (getitem (h ! cleaned_df) Email)));
                          (h, cleaned_df) = alloc h (getitem_mask (h ! cleaned_df)
                             (ne (getitem (h ! cleaned_df) Email) []));
                          (h, cleaned_df) = alloc h (drop_duplicates (h ! cleaned_df));
                          (h, cleaned_df) = alloc h (reset_index (h ! cleaned_df))
                      in (h, Inr cleaned_df))))))"


section \<open>\<open>clean_dataframe\<close> of tests/test_transform.py\<close>

text \<open>
  The copy of the function in the test file differs in three places: it returns the
  copy at once when the frame has no rows, and it converts each of the two columns only
  when the column has a non-null cell.
  \<^verbatim>\<open>
  def clean_dataframe(df):
      cleaned_df = df.copy()
      if len(cleaned_df) == 0:
          return cleaned_df
      if cleaned_df['name'].notna().any():
          cleaned_df['name'] = cleaned_df['name'].str.strip().str.lower()
      if cleaned_df['email'].notna().any():
          cleaned_df['email'] = cleaned_df['email'].str.strip().str.lower()
      cleaned_df = cleaned_df[cleaned_df['email'].notna()]
      cleaned_df = cleaned_df[cleaned_df['email'] != '']
      cleaned_df = cleaned_df.drop_duplicates(subset=['email'], keep='first')
      cleaned_df = cleaned_df.reset_index(drop=True)
      return cleaned_df
  \<close>
  \<open>guarded_lower\<close> is one guarded assignment, for the column \<open>c\<close>.
\<close>

definition guarded_lower ::
  "'a heap \<Rightarrow> addr \<Rightarrow> column \<Rightarrow> error + 'a heap" where
  "guarded_lower h cleaned_df c =
     (if any_true (notna (getitem (h ! cleaned_df) c))
      then (case str_strip_lower (getitem (h ! cleaned_df) c) of
              Inl e \<Rightarrow> Inl e
            | Inr s \<Rightarrow> Inr (store_col h cleaned_df c s))
      else Inr h)"

definition clean_dataframe_test :: "'a heap \<Rightarrow> addr \<Rightarrow> 'a heap \<times> (error + addr)" where
  "clean_dataframe_test h df =
     (let (h, cleaned_df) = copy h df
      in if length (rows (h ! cleaned_df)) = 0 then (h, Inr cleaned_df)
      else (case guarded_lower h cleaned_df Name of
              Inl e \<Rightarrow> (h, Inl e)
            | Inr h \<Rightarrow>
               (case guarded_lower h cleaned_df Email of
                  Inl e \<Rightarrow> (h, Inl e)
                | Inr h \<Rightarrow>
                   (let (h, cleaned_df) = alloc h (getitem_mask (h ! cleaned_df)
                           (notna (getitem (h ! cleaned_df) Email)));
                        (h, cleaned_df) = alloc h (getitem_mask (h ! cleaned_df)
                           (ne (getitem (h ! cleaned_df) Email) []));
                        (h, cleaned_df) = alloc h (drop_duplicates (h ! cleaned_df));
                        (h, cleaned_df) = alloc h (reset_index (h ! cleaned_df))
                    in (h, Inr cleaned_df)))))"


section \<open>The table a call returns\<close>

text \<open>
  The outcome of a call as a value: the error raised, or the frame the returned
  reference points to. \<open>run\<close> calls a function on a store that holds nothing but the
  argument.
\<close>

definition outcome :: "'a heap \<times> (error + addr) \<Rightarrow> error + 'a dataframe" where
  "outcome p = (case p of (h, Inl e) \<Rightarrow> Inl e | (h, Inr r) \<Rightarrow> Inr (h ! r))"

definition run :: "('a heap \<Rightarrow> addr \<Rightarrow> 'a heap \<times> (error + addr)) \<Rightarrow> 'a dataframe \<Rightarrow> error + 'a dataframe" where
  "run f df = outcome (f [df] 0)"


section \<open>Notions of the specification\<close>

text \<open>
  The canonical form of a text is the text trimmed and lowercased, in the order the
  program applies the two steps. \<open>canon_row\<close> is a record with both interpreted cells
  in canonical form (a null cell stays null); \<open>content\<close> is a record without its
  index label.
\<close>

definition canonical :: "string \<Rightarrow> string" where
  "canonical s = py_lower (py_strip s)"

definition canon_row :: "'a row \<Rightarrow> 'a row" where
  "canon_row r =
     r\<lparr>name := map_option canonical (name r), email := map_option canonical (email r)\<rparr>"

definition content :: "'a row \<Rightarrow> string option \<times> string option \<times> 'a" where
  "content r = (name r, email r, other r)"

text \<open>
  Keeping the first record of every key, written as one pass with the keys met so
  far, and numbering the records from 0.
\<close>

fun keep_first :: "('r \<Rightarrow> 'k) \<Rightarrow> 'k list \<Rightarrow> 'r list \<Rightarrow> 'r list" where
  "keep_first key seen [] = []"
| "keep_first key seen (r # rs) =
     (if key r \<in> set seen then keep_first key (key r # seen) rs
      else r # keep_first key (key r # seen) rs)"

definition renumber :: "'a row list \<Rightarrow> 'a row list" where
  "renumber rs = map2 (\<lambda>i r. r\<lparr>idx := int i\<rparr>) [0..<length rs] rs"

definition kept :: "'a row \<Rightarrow> bool" where
  "kept r = (email r \<noteq> None \<and> email r \<noteq> Some [])"

definition cleaned_rows :: "'a row list \<Rightarrow> 'a row list" where
  "cleaned_rows rs = renumber (keep_first email [] (filter kept (map canon_row rs)))"

definition cleaned :: "'a dataframe \<Rightarrow> 'a dataframe" where
  "cleaned df = \<lparr>name_dtype = Object, email_dtype = Object, rows = cleaned_rows (rows df)\<rparr>"

text \<open>The frame after each statement of the function body.\<close>

definition name_done :: "'a dataframe \<Rightarrow> 'a dataframe" where
  "name_done df = df\<lparr>name_dtype := Object,
     rows := map (\<lambda>r. r\<lparr>name := map_option canonical (name r)\<rparr>) (rows df)\<rparr>"

definition email_done :: "'a dataframe \<Rightarrow> 'a dataframe" where
  "email_done df = df\<lparr>email_dtype := Object,
     rows := map (\<lambda>r. r\<lparr>email := map_option canonical (email r)\<rparr>) (rows df)\<rparr>"

definition select_rows :: "('a row \<Rightarrow> bool) \<Rightarrow> 'a dataframe \<Rightarrow> 'a dataframe" where
  "select_rows p df = df\<lparr>rows := filter p (rows df)\<rparr>"

definition finish :: "'a dataframe \<Rightarrow> 'a dataframe list" where
  "finish c =
     (let f1 = select_rows (\<lambda>r. email r \<noteq> None) c;
          f2 = select_rows (\<lambda>r. email r \<noteq> Some []) f1;
          d = drop_duplicates f2;
          r = reset_index d
      in [f1, f2, d, r])"

text \<open>A text of white space only, and a cell that holds a text with something else in it.\<close>

definition blank :: "string \<Rightarrow> bool" where
  "blank s = list_all py_isspace s"

definition has_text :: "string option \<Rightarrow> bool" where
  "has_text x = (case x of None \<Rightarrow> False | Some s \<Rightarrow> \<not> blank s)"


section \<open>Example tables\<close>

text \<open>
  The third column of the examples is a customer number. \<open>customers\<close> has surrounding
  blanks, capitals, a blank email, a null email and a duplicate; \<open>customers_cleaned\<close>
  is what the function returns for it.
\<close>

definition customers :: "nat dataframe" where
  "customers = \<lparr>name_dtype = Object, email_dtype = Object, rows =
     [\<lparr>idx = 10, name = Some '' John Doe '', email = Some '' JOHN@EXAMPLE.COM '', other = 501\<rparr>,
      \<lparr>idx = 11, name = None, email = Some ''  '', other = 502\<rparr>,
      \<lparr>idx = 12, name = Some ''Grace Taylor'', email = None, other = 503\<rparr>,
      \<lparr>idx = 13, name = Some ''John Duplicate'', email = Some ''john@example.com'', other = 504\<rparr>,
      \<lparr>idx = 14, name = Some ''JANE SMITH'', email = Some ''Jane@Example.com'', other = 505\<rparr>]\<rparr>"

definition customers_cleaned :: "nat dataframe" where
  "customers_cleaned = \<lparr>name_dtype = Object, email_dtype = Object, rows =
     [\<lparr>idx = 0, name = Some ''john doe'', email = Some ''john@example.com'', other = 501\<rparr>,
      \<lparr>idx = 1, name = Some ''jane smith'', email = Some ''jane@example.com'', other = 505\<rparr>]\<rparr>"

text \<open>Two records whose emails are both empty after trimming.\<close>

definition blank_pair :: "nat dataframe" where
  "blank_pair = \<lparr>name_dtype = Object, email_dtype = Object, rows =
     [\<lparr>idx = 0, name = Some ''A'', email = Some '' '', other = 1\<rparr>,
      \<lparr>idx = 1, name = Some ''B'', email = Some [], other = 2\<rparr>]\<rparr>"

text \<open>
  \<^verbatim>\<open>pd.DataFrame({'name': [], 'email': []})\<close> of \<open>test_empty_dataframe\<close>: no rows, and
  both columns of dtype \<open>float64\<close>.
\<close>

definition empty_float64 :: "nat dataframe" where
  "empty_float64 = \<lparr>name_dtype = Float64, email_dtype = Float64, rows = []\<rparr>"

text \<open>The same table with columns of dtype \<open>object\<close>, as \<^verbatim>\<open>pd.DataFrame(columns=['name', 'email'])\<close>.\<close>

definition empty_object :: "nat dataframe" where
  "empty_object = \<lparr>name_dtype = Object, email_dtype = Object, rows = []\<rparr>"

text \<open>
  The table of \<open>test_all_nulls\<close>, \<^verbatim>\<open>'email': [None, np.nan]\<close>: a column of nulls only,
  which pandas stores as \<open>float64\<close>.
\<close>

definition all_null_emails :: "nat dataframe" where
  "all_null_emails = \<lparr>name_dtype = Object, email_dtype = Float64, rows =
     [\<lparr>idx = 0, name = Some ''John Doe'', email = None, other = 1\<rparr>,
      \<lparr>idx = 1, name = Some ''Jane Smith'', email = None, other = 2\<rparr>]\<rparr>"

text \<open>A table of text columns in which no record has a name.\<close>

definition nameless :: "nat dataframe" where
  "nameless = \<lparr>name_dtype = Object, email_dtype = Object, rows =
     [\<lparr>idx = 0, name = None, email = Some ''X@Y.COM'', other = 1\<rparr>,
      \<lparr>idx = 1, name = None, email = Some ''x@y.com '', other = 2\<rparr>]\<rparr>"

definition nameless_cleaned :: "nat dataframe" where
  "nameless_cleaned = \<lparr>name_dtype = Object, email_dtype = Object, rows =
     [\<lparr>idx = 0, name = None, email = Some ''x@y.com'', other = 1\<rparr>]\<rparr>"


section \<open>Lemmas\<close>

subsection \<open>Strings\<close>

lemma py_isupper_lower_char: "\<not> py_isupper (py_lower_char c)"
  by (auto simp: py_isupper_def py_lower_char_def Let_def)

lemma py_lower_char_idem: "py_lower_char (py_lower_char c) = py_lower_char c"
  using py_isupper_lower_char[of c] by (simp add: py_lower_char_def[of "py_lower_char c"])

lemma py_isspace_lower_char: "py_isspace (py_lower_char c) = py_isspace c"
  by (auto simp: py_isupper_def py_lower_char_def Let_def py_isspace_def)

lemma py_lower_idem: "py_lower (py_lower s) = py_lower s"
  by (simp add: py_lower_def py_lower_char_idem)

lemma dropWhile_space_lower:
  "dropWhile py_isspace (py_lower s) = py_lower (dropWhile py_isspace s)"
  by (simp add: py_lower_def dropWhile_map comp_def py_isspace_lower_char)

lemma py_strip_lower: "py_strip (py_lower s) = py_lower (py_strip s)"
proof -
  have "rev (py_lower s) = py_lower (rev s)" for s
    by (simp add: py_lower_def rev_map)
  then show ?thesis
    by (simp add: py_strip_def dropWhile_space_lower)
qed

lemma strip_right_prefix:
  "\<exists>w. t = rev (dropWhile P (rev t)) @ w"
proof -
  have "rev t = takeWhile P (rev t) @ dropWhile P (rev t)" by simp
  then have "rev (rev t) = rev (takeWhile P (rev t) @ dropWhile P (rev t))" by simp
  then have "t = rev (dropWhile P (rev t)) @ rev (takeWhile P (rev t))"
    by (simp only: rev_rev_ident rev_append)
  then show ?thesis ..
qed

lemma strip_right_keeps_head:
  assumes "t = [] \<or> \<not> P (hd t)"
  shows "dropWhile P (rev (dropWhile P (rev t))) = rev (dropWhile P (rev t))"
proof -
  let ?u = "rev (dropWhile P (rev t))"
  obtain w where w: "t = ?u @ w" using strip_right_prefix by blast
  show ?thesis
  proof (cases "?u = []")
    case True
    then show ?thesis by (metis dropWhile.simps(1))
  next
    case False
    then have "hd t = hd ?u" using w by (metis hd_append2)
    moreover have "t \<noteq> []" using False w by auto
    ultimately have "\<not> P (hd ?u)" using assms by simp
    then show ?thesis by (simp add: dropWhile_eq_self_iff)
  qed
qed

lemma dropWhile_head: "dropWhile P s = [] \<or> \<not> P (hd (dropWhile P s))"
  by (metis hd_dropWhile)

lemma py_strip_idem: "py_strip (py_strip s) = py_strip s"
  using strip_right_keeps_head[of "dropWhile py_isspace s" py_isspace, OF dropWhile_head]
  by (simp add: py_strip_def)

lemma canonical_idem: "canonical (canonical s) = canonical s"
  by (simp add: canonical_def py_strip_lower py_strip_idem py_lower_idem)

lemma canonical_trim_of_lower: "canonical s = py_strip (py_lower s)"
  by (simp add: canonical_def py_strip_lower)

lemma all_dropWhile: "(\<forall>x\<in>set (dropWhile P s). P x) = (\<forall>x\<in>set s. P x)"
  by (induction s) auto

lemma py_strip_Nil_iff: "py_strip s = [] \<longleftrightarrow> blank s"
  by (simp add: py_strip_def blank_def list_all_iff all_dropWhile)

lemma canonical_Nil_iff: "canonical s = [] \<longleftrightarrow> blank s"
  by (simp add: canonical_def py_lower_def py_strip_Nil_iff)

subsection \<open>Masks, duplicates and numbering\<close>

lemma map2_cells: "map2 f rs (map g rs) = map (\<lambda>r. f r (g r)) rs"
  by (induction rs) simp_all

lemma mask_filter: "map fst (filter snd (zip rs (map p rs))) = filter p rs"
  by (induction rs) simp_all

lemma mask_keep_first:
  "map fst (filter snd (zip rs (map Not (duplicated seen (map key rs))))) =
     keep_first key seen rs"
  by (induction rs arbitrary: seen) simp_all

lemma subseq_keep_first: "subseq (keep_first key seen rs) rs"
  by (induction rs arbitrary: seen) auto

lemma set_keep_first_keys:
  "key ` set (keep_first key seen rs) = key ` set rs - set seen"
  by (induction rs arbitrary: seen) auto

lemma distinct_keep_first: "distinct (map key (keep_first key seen rs))"
proof (induction rs arbitrary: seen)
  case Nil
  then show ?case by simp
next
  case (Cons r rs)
  have "key r \<notin> key ` set (keep_first key (key r # seen) rs)"
    by (simp add: set_keep_first_keys)
  then show ?case using Cons.IH by simp
qed

lemma keep_first_find:
  "k \<notin> set seen \<Longrightarrow>
   filter (\<lambda>r. key r = k) (keep_first key seen rs) =
     (case find (\<lambda>r. key r = k) rs of None \<Rightarrow> [] | Some r \<Rightarrow> [r])"
proof (induction rs arbitrary: seen)
  case Nil
  then show ?case by simp
next
  case (Cons r rs)
  show ?case
  proof (cases "key r = k")
    case True
    have "k \<notin> key ` set (keep_first key (key r # seen) rs)"
      using True by (simp add: set_keep_first_keys)
    then have "filter (\<lambda>r. key r = k) (keep_first key (key r # seen) rs) = []"
      by (auto simp: filter_empty_conv)
    then show ?thesis using True Cons.prems by simp
  next
    case False
    then have "k \<notin> set (key r # seen)" using Cons.prems by auto
    from Cons.IH[OF this] show ?thesis using False by simp
  qed
qed

lemma keep_first_distinct:
  "distinct (map key rs) \<Longrightarrow> key ` set rs \<inter> set seen = {} \<Longrightarrow> keep_first key seen rs = rs"
  by (induction rs arbitrary: seen) auto

lemma length_keep_first: "length (keep_first key seen rs) \<le> length rs"
  by (induction rs arbitrary: seen) (auto simp: le_SucI)

lemma find_filter: "find P (filter Q xs) = find (\<lambda>x. Q x \<and> P x) xs"
  by (induction xs) auto

lemma find_map: "find P (map f xs) = map_option f (find (P \<circ> f) xs)"
  by (induction xs) auto

lemma relabel_content:
  "length is = length rs \<Longrightarrow>
   map content (map2 (\<lambda>i r. r\<lparr>idx := int i\<rparr>) is rs) = map content rs"
  by (induction "is" rs rule: list_induct2) (simp_all add: content_def)

lemma relabel_idx:
  "length is = length rs \<Longrightarrow> map idx (map2 (\<lambda>i r. r\<lparr>idx := int i\<rparr>) is rs) = map int is"
  by (induction "is" rs rule: list_induct2) simp_all

lemma relabel_filter_email:
  "length is = length rs \<Longrightarrow>
   map content (filter (\<lambda>r. p (email r)) (map2 (\<lambda>i r. r\<lparr>idx := int i\<rparr>) is rs)) =
     map content (filter (\<lambda>r. p (email r)) rs)"
  by (induction "is" rs rule: list_induct2) (simp_all add: content_def)

lemma relabel_same:
  "length is = length rs \<Longrightarrow> map idx rs = map int is \<Longrightarrow>
   map2 (\<lambda>i r. r\<lparr>idx := int i\<rparr>) is rs = rs"
  by (induction "is" rs rule: list_induct2) simp_all

lemma length_renumber [simp]: "length (renumber rs) = length rs"
  by (simp add: renumber_def)

lemma content_renumber: "map content (renumber rs) = map content rs"
  using relabel_content[of "[0..<length rs]" rs] by (simp add: renumber_def)

lemma idx_renumber: "map idx (renumber rs) = map int [0..<length rs]"
  using relabel_idx[of "[0..<length rs]" rs] by (simp add: renumber_def)

lemma relabel_email:
  "length is = length rs \<Longrightarrow> map email (map2 (\<lambda>i r. r\<lparr>idx := int i\<rparr>) is rs) = map email rs"
  by (induction "is" rs rule: list_induct2) simp_all

lemma email_renumber: "map email (renumber rs) = map email rs"
  using relabel_email[of "[0..<length rs]" rs] by (simp add: renumber_def)

subsection \<open>The function body, statement by statement\<close>

lemma str_strip_lower_canonical:
  "str_strip_lower (dt, xs) =
     (if dt = Object then Inr (Object, map (map_option canonical) xs) else Inl AttributeError)"
  by (simp add: str_strip_lower_def canonical_def[abs_def] comp_def option.map_comp)

lemma str_strip_lower_name:
  "str_strip_lower (getitem df Name) =
     (if name_dtype df = Object
      then Inr (Object, map (map_option canonical) (snd (getitem df Name)))
      else Inl AttributeError)"
  by (simp add: str_strip_lower_canonical)

lemma str_strip_lower_email:
  "str_strip_lower (getitem df Email) =
     (if email_dtype df = Object
      then Inr (Object, map (map_option canonical) (snd (getitem df Email)))
      else Inl AttributeError)"
  by (simp add: str_strip_lower_canonical)

lemma setitem_name_done:
  "setitem df Name (Object, map (map_option canonical) (snd (getitem df Name))) = name_done df"
  using map2_cells[of "\<lambda>r x. r\<lparr>name := x\<rparr>" "rows df" "\<lambda>r. map_option canonical (name r)"]
  by (simp add: comp_def name_done_def)

lemma setitem_email_done:
  "setitem df Email (Object, map (map_option canonical) (snd (getitem df Email))) = email_done df"
  using map2_cells[of "\<lambda>r x. r\<lparr>email := x\<rparr>" "rows df" "\<lambda>r. map_option canonical (email r)"]
  by (simp add: comp_def email_done_def)

lemma getitem_mask_notna:
  "getitem_mask df (notna (getitem df Email)) = select_rows (\<lambda>r. email r \<noteq> None) df"
  using mask_filter[of "rows df" "\<lambda>r. email r \<noteq> None"]
  by (simp add: getitem_mask_def comp_def select_rows_def)

lemma getitem_mask_ne:
  "getitem_mask df (ne (getitem df Email) v) = select_rows (\<lambda>r. email r \<noteq> Some v) df"
  using mask_filter[of "rows df" "\<lambda>r. email r \<noteq> Some v"]
  by (simp add: getitem_mask_def comp_def select_rows_def)

lemma drop_duplicates_rows:
  "drop_duplicates df = df\<lparr>rows := keep_first email [] (rows df)\<rparr>"
  by (simp add: drop_duplicates_def getitem_mask_def mask_keep_first)

lemma reset_index_rows: "reset_index df = df\<lparr>rows := renumber (rows df)\<rparr>"
  by (simp add: reset_index_def renumber_def)

lemma name_done_dtypes [simp]:
  "name_dtype (name_done df) = Object" "email_dtype (name_done df) = email_dtype df"
  by (simp_all add: name_done_def)

lemma clean_dataframe_eq:
  "clean_dataframe h a =
     (if name_dtype (h ! a) \<noteq> Object then (h @ [h ! a], Inl AttributeError)
      else if email_dtype (h ! a) \<noteq> Object then (h @ [name_done (h ! a)], Inl AttributeError)
      else (h @ email_done (name_done (h ! a)) # finish (email_done (name_done (h ! a))),
            Inr (length h + 4)))"
  by (simp add: clean_dataframe_def copy_def alloc_def store_col_def Let_def nth_append
      str_strip_lower_name str_strip_lower_email setitem_name_done setitem_email_done
      getitem_mask_notna getitem_mask_ne finish_def
      del: getitem.simps setitem.simps notna.simps ne.simps)

lemma guarded_lower_name:
  "guarded_lower (h @ [c]) (length h) Name =
     (if any_true (notna (getitem c Name))
      then (if name_dtype c = Object then Inr (h @ [name_done c]) else Inl AttributeError)
      else Inr (h @ [c]))"
  by (simp add: guarded_lower_def store_col_def str_strip_lower_name setitem_name_done
      del: getitem.simps setitem.simps notna.simps)

lemma guarded_lower_email:
  "guarded_lower (h @ [c]) (length h) Email =
     (if any_true (notna (getitem c Email))
      then (if email_dtype c = Object then Inr (h @ [email_done c]) else Inl AttributeError)
      else Inr (h @ [c]))"
  by (simp add: guarded_lower_def store_col_def str_strip_lower_email setitem_email_done
      del: getitem.simps setitem.simps notna.simps)

lemma clean_dataframe_test_eq:
  "clean_dataframe_test h a =
     (if rows (h ! a) = [] then (h @ [h ! a], Inr (length h))
      else if any_true (notna (getitem (h ! a) Name)) \<and> name_dtype (h ! a) \<noteq> Object
        then (h @ [h ! a], Inl AttributeError)
      else
        let c1 = (if any_true (notna (getitem (h ! a) Name)) then name_done (h ! a) else h ! a)
        in if any_true (notna (getitem c1 Email)) \<and> email_dtype c1 \<noteq> Object
           then (h @ [c1], Inl AttributeError)
           else
             let c = (if any_true (notna (getitem c1 Email)) then email_done c1 else c1)
             in (h @ c # finish c, Inr (length h + 4)))"
  by (simp add: clean_dataframe_test_def copy_def alloc_def guarded_lower_name
      guarded_lower_email Let_def nth_append getitem_mask_notna getitem_mask_ne finish_def
      del: getitem.simps setitem.simps notna.simps ne.simps)

subsection \<open>The returned table\<close>

lemma finish_last:
  "finish c ! 3 = c\<lparr>rows := renumber (keep_first email [] (filter kept (rows c)))\<rparr>"
  by (simp add: finish_def Let_def reset_index_rows drop_duplicates_rows select_rows_def
      kept_def[abs_def])

lemma finish_length [simp]: "length (finish c) = 4"
  by (simp add: finish_def Let_def)

lemma returned_frame:
  "(h @ c # finish c) ! (length h + 4) =
     c\<lparr>rows := renumber (keep_first email [] (filter kept (rows c)))\<rparr>"
  by (simp add: nth_append finish_last)

lemma both_done: "email_done (name_done df) =
  \<lparr>name_dtype = Object, email_dtype = Object, rows = map canon_row (rows df)\<rparr>"
  by (simp add: email_done_def name_done_def canon_row_def comp_def)

lemma outcome_clean_dataframe:
  "outcome (clean_dataframe h a) =
     (if name_dtype (h ! a) = Object \<and> email_dtype (h ! a) = Object
      then Inr (cleaned (h ! a)) else Inl AttributeError)"
  by (simp add: clean_dataframe_eq outcome_def nth_append finish_last both_done cleaned_def
      cleaned_rows_def)

lemma run_clean_dataframe:
  "run clean_dataframe df =
     (if name_dtype df = Object \<and> email_dtype df = Object
      then Inr (cleaned df) else Inl AttributeError)"
  by (simp add: run_def outcome_clean_dataframe)

lemma run_clean_dataframe_Inr:
  "run clean_dataframe df = Inr out \<longleftrightarrow>
     name_dtype df = Object \<and> email_dtype df = Object \<and> out = cleaned df"
  by (auto simp: run_clean_dataframe)

lemma any_notna_name:
  "any_true (notna (getitem df Name)) \<longleftrightarrow> (\<exists>r \<in> set (rows df). name r \<noteq> None)"
  by (auto simp: any_true_def)

lemma any_notna_email:
  "any_true (notna (getitem df Email)) \<longleftrightarrow> (\<exists>r \<in> set (rows df). email r \<noteq> None)"
  by (auto simp: any_true_def)

lemma name_done_all_null:
  assumes "\<not> any_true (notna (getitem df Name))" "name_dtype df = Object"
  shows "name_done df = df"
proof -
  have "map (\<lambda>r. r\<lparr>name := map_option canonical (name r)\<rparr>) (rows df) = rows df"
    using assms(1)[unfolded any_notna_name] by (intro map_idI) simp
  then show ?thesis using assms(2) by (simp add: name_done_def)
qed

lemma email_done_all_null:
  assumes "\<not> any_true (notna (getitem df Email))" "email_dtype df = Object"
  shows "email_done df = df"
proof -
  have "map (\<lambda>r. r\<lparr>email := map_option canonical (email r)\<rparr>) (rows df) = rows df"
    using assms(1)[unfolded any_notna_email] by (intro map_idI) simp
  then show ?thesis using assms(2) by (simp add: email_done_def)
qed

lemma cleaned_rows_Nil [simp]: "cleaned_rows [] = []"
  by (simp add: cleaned_rows_def renumber_def)

lemma guarded_name_text:
  "name_dtype df = Object \<Longrightarrow>
   (if any_true (notna (getitem df Name)) then name_done df else df) = name_done df"
  using name_done_all_null[of df] by (simp del: getitem.simps notna.simps)

lemma guarded_email_text:
  "email_dtype df = Object \<Longrightarrow>
   (if any_true (notna (getitem df Email)) then email_done df else df) = email_done df"
  using email_done_all_null[of df] by (simp del: getitem.simps notna.simps)

lemma outcome_clean_dataframe_test_text:
  assumes "name_dtype (h ! a) = Object" "email_dtype (h ! a) = Object"
  shows "outcome (clean_dataframe_test h a) = Inr (cleaned (h ! a))"
proof (cases "rows (h ! a) = []")
  case True
  then have "cleaned (h ! a) = h ! a"
    using assms by (simp add: cleaned_def)
  then show ?thesis using True by (simp add: clean_dataframe_test_eq outcome_def)
next
  case False
  have e: "email_dtype (name_done (h ! a)) = Object" using assms(2) by simp
  have "clean_dataframe_test h a =
      (h @ email_done (name_done (h ! a)) # finish (email_done (name_done (h ! a))),
       Inr (length h + 4))"
    using False assms e
    by (simp add: clean_dataframe_test_eq Let_def guarded_name_text guarded_email_text
        del: getitem.simps notna.simps)
  then show ?thesis
    by (simp add: outcome_def nth_append finish_last both_done cleaned_def cleaned_rows_def)
qed

lemma run_clean_dataframe_test_text:
  "name_dtype df = Object \<Longrightarrow> email_dtype df = Object \<Longrightarrow>
   run clean_dataframe_test df = Inr (cleaned df)"
  using outcome_clean_dataframe_test_text[of "[df]" 0] by (simp add: run_def)

lemma heap_grows:
  "\<exists>ext. fst (clean_dataframe h a) = h @ ext \<and>
     (\<forall>r. snd (clean_dataframe h a) = Inr r \<longrightarrow> length h \<le> r \<and> r < length h + length ext)"
  by (simp add: clean_dataframe_eq)

lemma heap_grows_test:
  "\<exists>ext. fst (clean_dataframe_test h a) = h @ ext \<and>
     (\<forall>r. snd (clean_dataframe_test h a) = Inr r \<longrightarrow> length h \<le> r \<and> r < length h + length ext)"
  by (simp add: clean_dataframe_test_eq Let_def del: getitem.simps notna.simps)

subsection \<open>Properties of the cleaned rows\<close>

lemma set_keep_first: "set (keep_first key seen rs) \<subseteq> set rs"
  by (induction rs arbitrary: seen) auto

lemma email_canon_row [simp]: "email (canon_row r) = map_option canonical (email r)"
  by (simp add: canon_row_def)

lemma kept_canon_row: "kept (canon_row r) = has_text (email r)"
  by (cases "email r") (simp_all add: kept_def has_text_def canonical_Nil_iff)

lemma filter_kept_canon:
  "filter kept (map canon_row rs) = map canon_row (filter (\<lambda>r. has_text (email r)) rs)"
  by (simp add: filter_map comp_def kept_canon_row)

lemma canon_row_idem: "canon_row (canon_row r) = canon_row r"
  by (simp add: canon_row_def option.map_comp comp_def canonical_idem)

lemma canon_row_idx: "canon_row (r\<lparr>idx := i\<rparr>) = (canon_row r)\<lparr>idx := i\<rparr>"
  by (simp add: canon_row_def)

lemma kept_idx [simp]: "kept (r\<lparr>idx := i\<rparr>) = kept r"
  by (simp add: kept_def)

lemma renumber_set: "x \<in> set (renumber rs) \<Longrightarrow> \<exists>y \<in> set rs. \<exists>i. x = y\<lparr>idx := i\<rparr>"
  by (auto simp: renumber_def dest: set_zip_rightD)

lemma cleaned_rows_origin:
  assumes "x \<in> set (cleaned_rows rs)"
  shows "\<exists>r \<in> set rs. \<exists>i. has_text (email r) \<and> x = (canon_row r)\<lparr>idx := i\<rparr>"
proof -
  obtain y i where y: "y \<in> set (keep_first email [] (filter kept (map canon_row rs)))"
    and x: "x = y\<lparr>idx := i\<rparr>"
    using renumber_set[OF assms[unfolded cleaned_rows_def]] by blast
  from y have "y \<in> set (filter kept (map canon_row rs))"
    using set_keep_first[of email "[]" "filter kept (map canon_row rs)"] by auto
  then obtain r where "r \<in> set rs" "has_text (email r)" "y = canon_row r"
    by (auto simp: filter_kept_canon)
  then show ?thesis using x by blast
qed

lemma cleaned_rows_content:
  "map content (cleaned_rows rs) =
     map content (keep_first email [] (filter kept (map canon_row rs)))"
  by (simp add: cleaned_rows_def content_renumber)

lemma cleaned_rows_email:
  "map email (cleaned_rows rs) =
     map email (keep_first email [] (filter kept (map canon_row rs)))"
  by (simp add: cleaned_rows_def email_renumber)

lemma cleaned_rows_idx:
  "map idx (cleaned_rows rs) = map int [0..<length (cleaned_rows rs)]"
  by (simp add: cleaned_rows_def idx_renumber)

lemma cleaned_rows_subseq:
  "subseq (map content (cleaned_rows rs))
     (map (content \<circ> canon_row) (filter (\<lambda>r. has_text (email r)) rs))"
proof -
  have "subseq (keep_first email [] (filter kept (map canon_row rs)))
          (map canon_row (filter (\<lambda>r. has_text (email r)) rs))"
    using subseq_keep_first[of email "[]" "filter kept (map canon_row rs)"]
    by (simp add: filter_kept_canon)
  then have "subseq (map content (keep_first email [] (filter kept (map canon_row rs))))
          (map content (map canon_row (filter (\<lambda>r. has_text (email r)) rs)))"
    by (rule subseq_map)
  then show ?thesis by (simp add: cleaned_rows_content)
qed

lemma cleaned_rows_distinct: "distinct (map email (cleaned_rows rs))"
  by (simp add: cleaned_rows_email distinct_keep_first)

lemma cleaned_rows_length: "length (cleaned_rows rs) \<le> length rs"
proof -
  have "length (cleaned_rows rs) = length (keep_first email [] (filter kept (map canon_row rs)))"
    by (simp add: cleaned_rows_def)
  also have "\<dots> \<le> length (filter kept (map canon_row rs))"
    by (rule length_keep_first)
  also have "\<dots> \<le> length (map canon_row rs)"
    by (rule length_filter_le)
  finally show ?thesis by simp
qed

lemma cleaned_rows_idem: "cleaned_rows (cleaned_rows rs) = cleaned_rows rs"
proof -
  let ?out = "cleaned_rows rs"
  have canon: "map canon_row ?out = ?out"
  proof (intro map_idI)
    fix x assume "x \<in> set ?out"
    then obtain r i where "x = (canon_row r)\<lparr>idx := i\<rparr>"
      using cleaned_rows_origin[of x rs] by blast
    then show "canon_row x = x" by (simp add: canon_row_idx canon_row_idem)
  qed
  have kept: "filter kept ?out = ?out"
  proof -
    have "kept x" if mem: "x \<in> set ?out" for x
    proof -
      obtain r i where "has_text (email r)" "x = (canon_row r)\<lparr>idx := i\<rparr>"
        using cleaned_rows_origin[OF mem] by blast
      then show ?thesis by (simp add: kept_canon_row)
    qed
    then show ?thesis by simp
  qed
  have first: "keep_first email [] ?out = ?out"
    by (rule keep_first_distinct) (simp_all add: cleaned_rows_distinct)
  have "renumber ?out = ?out"
    unfolding renumber_def
    by (rule relabel_same) (simp_all add: cleaned_rows_idx)
  then show ?thesis
    using canon kept first by (simp add: cleaned_rows_def[of ?out])
qed

subsection \<open>The rows either variant returns\<close>

lemma guarded_name_rows:
  "rows (if any_true (notna (getitem d Name)) then name_done d else d) =
     map (\<lambda>r. r\<lparr>name := map_option canonical (name r)\<rparr>) (rows d)"
proof (cases "any_true (notna (getitem d Name))")
  case True
  then show ?thesis by (simp add: name_done_def del: getitem.simps notna.simps)
next
  case False
  have "map (\<lambda>r. r\<lparr>name := map_option canonical (name r)\<rparr>) (rows d) = rows d"
    using False[unfolded any_notna_name] by (intro map_idI) simp
  then show ?thesis using False by (simp del: getitem.simps notna.simps)
qed

lemma guarded_email_rows:
  "rows (if any_true (notna (getitem d Email)) then email_done d else d) =
     map (\<lambda>r. r\<lparr>email := map_option canonical (email r)\<rparr>) (rows d)"
proof (cases "any_true (notna (getitem d Email))")
  case True
  then show ?thesis by (simp add: email_done_def del: getitem.simps notna.simps)
next
  case False
  have "map (\<lambda>r. r\<lparr>email := map_option canonical (email r)\<rparr>) (rows d) = rows d"
    using False[unfolded any_notna_email] by (intro map_idI) simp
  then show ?thesis using False by (simp del: getitem.simps notna.simps)
qed

lemma run_clean_dataframe_test_rows:
  assumes "run clean_dataframe_test df = Inr out"
  shows "rows out = cleaned_rows (rows df)"
proof (cases "rows df = []")
  case True
  then have "out = df"
    using assms by (simp add: run_def clean_dataframe_test_eq outcome_def)
  then show ?thesis using True by simp
next
  case False
  let ?c1 = "if any_true (notna (getitem df Name)) then name_done df else df"
  let ?c = "if any_true (notna (getitem ?c1 Email)) then email_done ?c1 else ?c1"
  have rows_c: "rows ?c = map canon_row (rows df)"
    by (simp only: guarded_email_rows guarded_name_rows)
       (simp add: canon_row_def comp_def)
  let ?bad1 = "any_true (notna (getitem df Name)) \<and> name_dtype df \<noteq> Object"
  let ?bad2 = "any_true (notna (getitem ?c1 Email)) \<and> email_dtype ?c1 \<noteq> Object"
  have eq: "clean_dataframe_test [df] 0 =
      (if ?bad1 then ([df] @ [df], Inl AttributeError)
       else if ?bad2 then ([df] @ [?c1], Inl AttributeError)
       else ([df] @ ?c # finish ?c, Inr (length [df] + 4)))"
    unfolding clean_dataframe_test_eq Let_def using False by (simp only: nth_Cons_0 if_False)
  have "\<not> ?bad1"
  proof
    assume ?bad1
    then have "clean_dataframe_test [df] 0 = ([df] @ [df], Inl AttributeError)"
      by (simp add: eq del: getitem.simps notna.simps)
    then show False using assms by (simp add: run_def outcome_def)
  qed
  moreover have "\<not> ?bad2"
  proof
    assume ?bad2
    then have "clean_dataframe_test [df] 0 = ([df] @ [?c1], Inl AttributeError)"
      using \<open>\<not> ?bad1\<close> by (simp add: eq del: getitem.simps notna.simps) blast
    then show False using assms by (simp add: run_def outcome_def)
  qed
  ultimately have "clean_dataframe_test [df] 0 = ([df] @ ?c # finish ?c, Inr (length [df] + 4))"
    by (simp add: eq del: getitem.simps notna.simps)
  then have "out = ([df] @ ?c # finish ?c) ! (length [df] + 4)"
    using assms by (simp add: run_def outcome_def)
  then have "out = ?c\<lparr>rows := renumber (keep_first email [] (filter kept (rows ?c)))\<rparr>"
    by (simp only: returned_frame)
  then have "rows out = renumber (keep_first email [] (filter kept (rows ?c)))"
    by simp
  then show ?thesis by (simp only: rows_c cleaned_rows_def)
qed

lemma returned_rows:
  assumes "f \<in> {clean_dataframe, clean_dataframe_test}" and "run f df = Inr out"
  shows "rows out = cleaned_rows (rows df)"
proof -
  from assms(1) consider "f = clean_dataframe" | "f = clean_dataframe_test" by blast
  then show ?thesis
  proof cases
    case 1
    then show ?thesis using assms(2) by (simp add: run_clean_dataframe_Inr cleaned_def)
  next
    case 2
    then show ?thesis using assms(2) run_clean_dataframe_test_rows by blast
  qed
qed

lemma find_canonical_email:
  assumes "e \<noteq> []"
  shows "find (\<lambda>x. email x = Some e) (filter kept (map canon_row rs)) =
           map_option canon_row (find (\<lambda>x. map_option canonical (email x) = Some e) rs)"
proof -
  have "(\<lambda>x. kept x \<and> email x = Some e) = (\<lambda>x::'a row. email x = Some e)"
    using assms by (auto simp: kept_def)
  then have "find (\<lambda>x. email x = Some e) (filter kept (map canon_row rs)) =
      find (\<lambda>x. email x = Some e) (map canon_row rs)"
    by (simp add: find_filter)
  then show ?thesis by (simp add: find_map comp_def)
qed

lemma cleaned_rows_first:
  assumes "r \<in> set rs" "map_option canonical (email r) = Some e" "e \<noteq> []"
  shows "\<exists>f. find (\<lambda>x. map_option canonical (email x) = Some e) rs = Some f \<and>
           map content (filter (\<lambda>x. email x = Some e) (cleaned_rows rs)) = [content (canon_row f)]"
proof -
  let ?P = "\<lambda>x::'a row. map_option canonical (email x) = Some e"
  let ?base = "filter kept (map canon_row rs)"
  have "find ?P rs \<noteq> None" using assms(1,2) by (auto simp: find_None_iff)
  then obtain f where f: "find ?P rs = Some f" by blast
  have "map content (filter (\<lambda>x. email x = Some e) (cleaned_rows rs)) =
      map content (filter (\<lambda>x. email x = Some e) (keep_first email [] ?base))"
    using relabel_filter_email[of "[0..<length (keep_first email [] ?base)]"
        "keep_first email [] ?base" "\<lambda>x. x = Some e"]
    by (simp add: cleaned_rows_def renumber_def)
  also have "filter (\<lambda>x. email x = Some e) (keep_first email [] ?base) =
      (case find (\<lambda>x. email x = Some e) ?base of None \<Rightarrow> [] | Some x \<Rightarrow> [x])"
    by (rule keep_first_find) simp
  also have "\<dots> = [canon_row f]"
    using f by (simp add: find_canonical_email[OF assms(3)])
  finally show ?thesis using f by simp
qed

subsection \<open>Outcomes and the store\<close>

lemma outcome_clean_dataframe_test:
  "outcome (clean_dataframe_test h a) =
     (if rows (h ! a) = [] then Inr (h ! a)
      else if any_true (notna (getitem (h ! a) Name)) \<and> name_dtype (h ! a) \<noteq> Object
        then Inl AttributeError
      else
        let c1 = (if any_true (notna (getitem (h ! a) Name)) then name_done (h ! a) else h ! a)
        in if any_true (notna (getitem c1 Email)) \<and> email_dtype c1 \<noteq> Object
           then Inl AttributeError
           else
             let c = (if any_true (notna (getitem c1 Email)) then email_done c1 else c1)
             in Inr (finish c ! 3))"
  by (simp add: clean_dataframe_test_eq outcome_def Let_def nth_append
      del: getitem.simps notna.simps)

lemma outcome_run:
  assumes "f \<in> {clean_dataframe, clean_dataframe_test}"
  shows "outcome (f h a) = run f (h ! a)"
proof -
  from assms consider "f = clean_dataframe" | "f = clean_dataframe_test" by blast
  then show ?thesis
  proof cases
    case 1
    then show ?thesis by (simp add: run_def outcome_clean_dataframe)
  next
    case 2
    have "outcome (clean_dataframe_test [h ! a] 0) = outcome (clean_dataframe_test h a)"
      by (simp only: outcome_clean_dataframe_test nth_Cons_0)
    then show ?thesis by (simp add: run_def 2)
  qed
qed

lemma empty_table:
  assumes "rows df = []"
  shows "run clean_dataframe_test df = Inr df"
    and "run clean_dataframe df =
      (if name_dtype df = Object \<and> email_dtype df = Object then Inr df else Inl AttributeError)"
proof -
  show "run clean_dataframe_test df = Inr df"
    using assms by (simp add: run_def clean_dataframe_test_eq outcome_def)
  show "run clean_dataframe df =
      (if name_dtype df = Object \<and> email_dtype df = Object then Inr df else Inl AttributeError)"
    using assms by (simp add: run_clean_dataframe cleaned_def)
qed

subsection \<open>Blank emails, and where the two variants meet\<close>

lemma not_has_text_canonical:
  "\<not> has_text x \<Longrightarrow> map_option canonical x = None \<or> map_option canonical x = Some []"
  by (cases x) (simp_all add: has_text_def canonical_Nil_iff)

lemma cleaned_rows_kept:
  assumes "x \<in> set (cleaned_rows rs)"
  shows "email x \<noteq> None \<and> email x \<noteq> Some []"
proof -
  obtain r i where "has_text (email r)" "x = (canon_row r)\<lparr>idx := i\<rparr>"
    using cleaned_rows_origin[OF assms] by blast
  then have "kept x" by (simp add: kept_canon_row)
  then show ?thesis by (simp add: kept_def)
qed

lemma cleaned_rows_blank_dropped:
  assumes "\<not> has_text (email r)"
  shows "filter (\<lambda>x. email x = map_option canonical (email r)) (cleaned_rows rs) = []"
proof -
  have "email x \<noteq> map_option canonical (email r)" if mem: "x \<in> set (cleaned_rows rs)" for x
    using not_has_text_canonical[OF assms] cleaned_rows_kept[OF mem] by metis
  then show ?thesis by (simp add: filter_empty_conv)
qed

lemma returns_on_text:
  assumes "f \<in> {clean_dataframe, clean_dataframe_test}"
    and "name_dtype df = Object" and "email_dtype df = Object"
  shows "run f df = Inr (cleaned df)"
  using assms run_clean_dataframe[of df] run_clean_dataframe_test_text[of df] by auto

lemma variants_agree_on_text_columns:
  assumes "name_dtype df = Object" and "email_dtype df = Object"
  shows "run clean_dataframe_test df = run clean_dataframe df"
  using assms by (simp add: run_clean_dataframe run_clean_dataframe_test_text)

lemma variants_differ_only_where_unguarded_raises:
  assumes "run clean_dataframe_test df \<noteq> run clean_dataframe df"
  shows "run clean_dataframe df = Inl AttributeError \<and> (\<exists>out. run clean_dataframe_test df = Inr out)"
proof -
  have "\<not> (name_dtype df = Object \<and> email_dtype df = Object)"
    using assms variants_agree_on_text_columns by blast
  then have src: "run clean_dataframe df = Inl AttributeError"
    by (simp add: run_clean_dataframe)
  have "\<exists>out. run clean_dataframe_test df = Inr out"
  proof (cases "run clean_dataframe_test df")
    case (Inl e)
    then have "run clean_dataframe_test df = Inl AttributeError" by (cases e) simp
    then show ?thesis using assms src by simp
  next
    case (Inr out)
    then show ?thesis by blast
  qed
  then show ?thesis using src by blast
qed

subsection \<open>The examples, evaluated\<close>

lemma customers_run: "run clean_dataframe customers = Inr customers_cleaned"
  by code_simp

lemma either_variant: "clean_dataframe \<in> {clean_dataframe, clean_dataframe_test :: nat heap \<Rightarrow> _}"
  by simp

section \<open>The claims\<close>

text \<open>
  C1, as amended. Either variant returns a table for every input table whose name and
  email columns have dtype \<open>object\<close>. In every table a variant returns: for every input
  record whose canonical email is a text \<open>e\<close> that is not empty, the output holds exactly
  one record with email \<open>e\<close>, the canonical form of the first input record, in input
  order, whose canonical email is \<open>e\<close>, with that record's name and other fields, so
  all later records with that canonical email are dropped; and every input record whose
  email is null or white space only is dropped, the earliest included: the output has
  no record with its canonical email, and no record with a null or empty email at all.
\<close>

theorem first_record_wins:
  assumes "f \<in> {clean_dataframe, clean_dataframe_test}"
  shows "(name_dtype df = Object \<and> email_dtype df = Object \<longrightarrow> (\<exists>out. run f df = Inr out)) \<and>
         (\<forall>out. run f df = Inr out \<longrightarrow>
            (\<forall>r \<in> set (rows df). \<forall>e. map_option canonical (email r) = Some e \<longrightarrow> e \<noteq> [] \<longrightarrow>
               (\<exists>first. find (\<lambda>x. map_option canonical (email x) = Some e) (rows df) = Some first \<and>
                  map content (filter (\<lambda>x. email x = Some e) (rows out)) =
                    [content (canon_row first)])) \<and>
            (\<forall>r \<in> set (rows df). \<not> has_text (email r) \<longrightarrow>
               filter (\<lambda>x. email x = map_option canonical (email r)) (rows out) = []) \<and>
            (\<forall>x \<in> set (rows out). email x \<noteq> None \<and> email x \<noteq> Some []))"
proof (intro conjI allI impI)
  assume "name_dtype df = Object \<and> email_dtype df = Object"
  then show "\<exists>out. run f df = Inr out"
    using returns_on_text[OF assms] by blast
next
  fix out assume run: "run f df = Inr out"
  have rows: "rows out = cleaned_rows (rows df)" by (rule returned_rows[OF assms run])
  show "\<forall>r \<in> set (rows df). \<forall>e. map_option canonical (email r) = Some e \<longrightarrow> e \<noteq> [] \<longrightarrow>
      (\<exists>first. find (\<lambda>x. map_option canonical (email x) = Some e) (rows df) = Some first \<and>
         map content (filter (\<lambda>x. email x = Some e) (rows out)) = [content (canon_row first)])"
    using cleaned_rows_first[of _ "rows df"] by (simp only: rows) blast
  show "\<forall>r \<in> set (rows df). \<not> has_text (email r) \<longrightarrow>
      filter (\<lambda>x. email x = map_option canonical (email r)) (rows out) = []"
    using cleaned_rows_blank_dropped[of _ "rows df"] by (simp only: rows) blast
  show "\<forall>x \<in> set (rows out). email x \<noteq> None \<and> email x \<noteq> Some []"
    using cleaned_rows_kept[of _ "rows df"] by (simp only: rows) blast
qed

theorem first_record_wins_witness:
  "clean_dataframe \<in> {clean_dataframe, clean_dataframe_test :: nat heap \<Rightarrow> _} \<and>
   name_dtype customers = Object \<and> email_dtype customers = Object \<and>
   run clean_dataframe customers = Inr customers_cleaned \<and>
   rows customers ! 3 \<in> set (rows customers) \<and>
   map_option canonical (email (rows customers ! 3)) = Some ''john@example.com'' \<and>
   map content (filter (\<lambda>x. email x = Some ''john@example.com'') (rows customers_cleaned)) =
     [content (canon_row (rows customers ! 0))] \<and>
   rows customers ! 1 \<in> set (rows customers) \<and>
   \<not> has_text (email (rows customers ! 1)) \<and>
   map_option canonical (email (rows customers ! 1)) = Some [] \<and>
   filter (\<lambda>x. email x = Some []) (rows customers_cleaned) = []"
proof -
  note h1 = either_variant and h2 = customers_run
  have d: "name_dtype customers = Object" "email_dtype customers = Object"
    by (simp_all add: customers_def)
  have h3: "rows customers ! 3 \<in> set (rows customers)" by (simp add: customers_def)
  have h4: "map_option canonical (email (rows customers ! 3)) = Some ''john@example.com''"
    by code_simp
  have h5: "''john@example.com'' \<noteq> []" by simp
  have b1: "rows customers ! 1 \<in> set (rows customers)" by (simp add: customers_def)
  have b2: "\<not> has_text (email (rows customers ! 1))" by code_simp
  have b3: "map_option canonical (email (rows customers ! 1)) = Some []" by code_simp
  have first: "find (\<lambda>x. map_option canonical (email x) = Some ''john@example.com'')
      (rows customers) = Some (rows customers ! 0)"
    by code_simp
  note claim = first_record_wins[OF h1, of customers]
  from claim d have "\<exists>out. run clean_dataframe customers = Inr out" by blast
  from claim h2 have all: "\<forall>r \<in> set (rows customers). \<forall>e.
      map_option canonical (email r) = Some e \<longrightarrow> e \<noteq> [] \<longrightarrow>
      (\<exists>first. find (\<lambda>x. map_option canonical (email x) = Some e) (rows customers) = Some first \<and>
         map content (filter (\<lambda>x. email x = Some e) (rows customers_cleaned)) =
           [content (canon_row first)])"
    and blank: "\<forall>r \<in> set (rows customers). \<not> has_text (email r) \<longrightarrow>
      filter (\<lambda>x. email x = map_option canonical (email r)) (rows customers_cleaned) = []"
    by blast+
  from all h3 h4 h5 first
  have w: "map content (filter (\<lambda>x. email x = Some ''john@example.com'') (rows customers_cleaned)) =
     [content (canon_row (rows customers ! 0))]"
    by fastforce
  from blank b1 b2 b3
  have e: "filter (\<lambda>x. email x = Some []) (rows customers_cleaned) = []"
    by fastforce
  show ?thesis using h1 d h2 h3 h4 w b1 b2 b3 e by (intro conjI)
qed

text \<open>
  C1 as stated fails: the two records of \<open>blank_pair\<close> have the same canonical email,
  the empty text, and the function keeps neither of them.
\<close>

theorem first_record_wins_counterexample:
  "map (map_option canonical \<circ> email) (rows blank_pair) = [Some [], Some []] \<and>
   run clean_dataframe blank_pair = Inr empty_object"
  by code_simp

text \<open>
  C2. Take either variant and a table it returns a result for. Every output record
  comes from an input record: its email is that record's email trimmed and then
  lowercased, which is the same text as the email lowercased and then trimmed; its name
  is the same form of that record's name; a null name stays null; the other fields are
  those of that record.
\<close>

theorem output_cells_canonical:
  assumes "f \<in> {clean_dataframe, clean_dataframe_test}"
    and "run f df = Inr out"
    and "r' \<in> set (rows out)"
  shows "\<exists>r \<in> set (rows df).
           email r' = map_option (\<lambda>s. py_lower (py_strip s)) (email r) \<and>
           email r' = map_option (\<lambda>s. py_strip (py_lower s)) (email r) \<and>
           name r' = map_option (\<lambda>s. py_lower (py_strip s)) (name r) \<and>
           name r' = map_option (\<lambda>s. py_strip (py_lower s)) (name r) \<and>
           (name r' = None) = (name r = None) \<and>
           other r' = other r"
proof -
  have "r' \<in> set (cleaned_rows (rows df))"
    using assms(3) returned_rows[OF assms(1,2)] by simp
  then obtain r i where r: "r \<in> set (rows df)" and r': "r' = (canon_row r)\<lparr>idx := i\<rparr>"
    using cleaned_rows_origin by blast
  have a: "map_option (\<lambda>s. py_lower (py_strip s)) x = map_option canonical x" for x
    by (simp add: canonical_def[abs_def])
  have b: "map_option (\<lambda>s. py_strip (py_lower s)) x = map_option canonical x" for x
    by (simp add: canonical_trim_of_lower[abs_def])
  have "email r' = map_option canonical (email r)"
    and "name r' = map_option canonical (name r)"
    and "(name r' = None) = (name r = None)"
    and "other r' = other r"
    using r' by (simp_all add: canon_row_def)
  then show ?thesis using r by (intro bexI[of _ r]) (simp_all only: a b)
qed

theorem output_cells_canonical_witness:
  "clean_dataframe \<in> {clean_dataframe, clean_dataframe_test :: nat heap \<Rightarrow> _} \<and>
   run clean_dataframe customers = Inr customers_cleaned \<and>
   rows customers_cleaned ! 1 \<in> set (rows customers_cleaned) \<and>
   email (rows customers_cleaned ! 1) = Some ''jane@example.com'' \<and>
   name (rows customers_cleaned ! 1) = Some ''jane smith'' \<and>
   other (rows customers_cleaned ! 1) = 505"
proof -
  have h3: "rows customers_cleaned ! 1 \<in> set (rows customers_cleaned)"
    by (simp add: customers_cleaned_def)
  from output_cells_canonical[OF either_variant customers_run h3]
  obtain r where "r \<in> set (rows customers)" and "other (rows customers_cleaned ! 1) = other r"
    by (elim bexE conjE)
  have cells: "email (rows customers_cleaned ! 1) = Some ''jane@example.com''"
    "name (rows customers_cleaned ! 1) = Some ''jane smith''"
    "other (rows customers_cleaned ! 1) = 505"
    by (simp_all add: customers_cleaned_def)
  show ?thesis
    using either_variant customers_run h3 cells by (intro conjI)
qed

text \<open>
  C3. Take either variant and a table it returns a result for. No output record has a
  null or an empty email, and the output is drawn, in order, from the input records
  whose email holds something else than white space: a record whose email is null or
  white space only is removed, since the email is trimmed before the rows are selected.
\<close>

theorem no_null_or_empty_email:
  assumes "f \<in> {clean_dataframe, clean_dataframe_test}"
    and "run f df = Inr out"
  shows "(\<forall>r \<in> set (rows out). email r \<noteq> None \<and> email r \<noteq> Some []) \<and>
         subseq (map content (rows out))
           (map (content \<circ> canon_row) (filter (\<lambda>r. has_text (email r)) (rows df)))"
proof -
  have rows: "rows out = cleaned_rows (rows df)" by (rule returned_rows[OF assms])
  have "email x \<noteq> None \<and> email x \<noteq> Some []" if mem: "x \<in> set (cleaned_rows (rows df))" for x
  proof -
    obtain r i where "has_text (email r)" "x = (canon_row r)\<lparr>idx := i\<rparr>"
      using cleaned_rows_origin[OF mem] by blast
    then have "kept x" by (simp add: kept_canon_row)
    then show ?thesis by (simp add: kept_def)
  qed
  then show ?thesis using cleaned_rows_subseq[of "rows df"] by (simp only: rows) blast
qed

theorem no_null_or_empty_email_witness:
  "clean_dataframe \<in> {clean_dataframe, clean_dataframe_test :: nat heap \<Rightarrow> _} \<and>
   run clean_dataframe customers = Inr customers_cleaned \<and>
   map email (rows customers) =
     [Some '' JOHN@EXAMPLE.COM '', Some ''  '', None, Some ''john@example.com'',
      Some ''Jane@Example.com''] \<and>
   map email (rows customers_cleaned) = [Some ''john@example.com'', Some ''jane@example.com'']"
proof -
  have e1: "map email (rows customers) =
     [Some '' JOHN@EXAMPLE.COM '', Some ''  '', None, Some ''john@example.com'',
      Some ''Jane@Example.com'']"
    by (simp add: customers_def)
  have e2: "map email (rows customers_cleaned) =
     [Some ''john@example.com'', Some ''jane@example.com'']"
    by (simp add: customers_cleaned_def)
  from no_null_or_empty_email[OF either_variant customers_run]
  have "\<forall>r \<in> set (rows customers_cleaned). email r \<noteq> None \<and> email r \<noteq> Some []"
    by (rule conjunct1)
  then show ?thesis using either_variant customers_run e1 e2 by blast
qed

text \<open>
  C4. Take either variant and a table it returns a result for. No two output records
  have the same email, and every stored email is its own canonical form, so the
  records are pairwise different in their canonical email as well.
\<close>

theorem emails_unique:
  assumes "f \<in> {clean_dataframe, clean_dataframe_test}"
    and "run f df = Inr out"
  shows "distinct (map email (rows out)) \<and>
         map (map_option canonical \<circ> email) (rows out) = map email (rows out) \<and>
         distinct (map (map_option canonical \<circ> email) (rows out))"
proof -
  have rows: "rows out = cleaned_rows (rows df)" by (rule returned_rows[OF assms])
  have d: "distinct (map email (rows out))" by (simp add: rows cleaned_rows_distinct)
  have "map_option canonical (email x) = email x" if mem: "x \<in> set (cleaned_rows (rows df))" for x
  proof -
    obtain r i where "x = (canon_row r)\<lparr>idx := i\<rparr>"
      using cleaned_rows_origin[OF mem] by blast
    then show ?thesis by (simp add: option.map_comp comp_def canonical_idem)
  qed
  then have eq: "map (map_option canonical \<circ> email) (rows out) = map email (rows out)"
    by (simp add: rows)
  show ?thesis using d by (simp only: eq)
qed

theorem emails_unique_witness:
  "clean_dataframe_test \<in> {clean_dataframe, clean_dataframe_test :: nat heap \<Rightarrow> _} \<and>
   run clean_dataframe_test customers = Inr customers_cleaned \<and>
   distinct (map email (rows customers_cleaned))"
proof -
  have h1: "clean_dataframe_test \<in> {clean_dataframe, clean_dataframe_test :: nat heap \<Rightarrow> _}"
    by simp
  have h2: "run clean_dataframe_test customers = Inr customers_cleaned" by code_simp
  from emails_unique[OF h1 h2] have "distinct (map email (rows customers_cleaned))"
    by (rule conjunct1)
  then show ?thesis using h1 h2 by blast
qed

text \<open>
  C5. Take either variant and a table it returns a result for. The output records are,
  index label aside, a subsequence of the canonical forms of the input records, so two
  records that survive keep their relative order; and the index labels of the output
  are 0, 1, 2, ... without a gap, whatever was removed.
\<close>

theorem order_kept_and_renumbered:
  assumes "f \<in> {clean_dataframe, clean_dataframe_test}"
    and "run f df = Inr out"
  shows "subseq (map content (rows out)) (map (content \<circ> canon_row) (rows df)) \<and>
         map idx (rows out) = map int [0..<length (rows out)]"
proof -
  have rows: "rows out = cleaned_rows (rows df)" by (rule returned_rows[OF assms(1,2)])
  have "subseq (map (content \<circ> canon_row) (filter (\<lambda>r. has_text (email r)) (rows df)))
          (map (content \<circ> canon_row) (rows df))"
    by (rule subseq_map) simp
  then have "subseq (map content (cleaned_rows (rows df))) (map (content \<circ> canon_row) (rows df))"
    using cleaned_rows_subseq[of "rows df"] subseq_order.trans by blast
  then show ?thesis by (simp add: rows cleaned_rows_idx)
qed

theorem order_kept_and_renumbered_witness:
  "clean_dataframe \<in> {clean_dataframe, clean_dataframe_test :: nat heap \<Rightarrow> _} \<and>
   run clean_dataframe customers = Inr customers_cleaned \<and>
   map idx (rows customers) = [10, 11, 12, 13, 14] \<and>
   map idx (rows customers_cleaned) = [0, 1]"
proof -
  have i1: "map idx (rows customers) = [10, 11, 12, 13, 14]"
    by (simp add: customers_def)
  have "length (rows customers_cleaned) = 2" by (simp add: customers_cleaned_def)
  then have i2: "map int [0..<length (rows customers_cleaned)] = [0, 1]"
    by (simp add: upt_rec)
  from order_kept_and_renumbered[OF either_variant customers_run]
  have "map idx (rows customers_cleaned) = map int [0..<length (rows customers_cleaned)]"
    by (rule conjunct2)
  then have "map idx (rows customers_cleaned) = [0, 1]" by (simp only: i2)
  then show ?thesis using either_variant customers_run i1 by (intro conjI)
qed

text \<open>
  C6. On the table without rows that \<open>test_empty_dataframe\<close> builds, whose columns have
  dtype \<open>float64\<close>, the function of src/transform.py raises \<open>AttributeError\<close>, while
  the copy in the test file returns the empty table. On a table without rows whose
  columns have dtype \<open>object\<close> both return the empty table.
\<close>

theorem unguarded_raises_on_empty_float64:
  "run clean_dataframe empty_float64 = Inl AttributeError \<and>
   run clean_dataframe_test empty_float64 = Inr empty_float64 \<and>
   run clean_dataframe empty_object = Inr empty_object \<and>
   run clean_dataframe_test empty_object = Inr empty_object"
  by code_simp

text \<open>
  C7. The two variants do not compute the same output for every table: on the table of
  \<open>test_all_nulls\<close>, whose email column holds only nulls and has dtype \<open>float64\<close>, the
  function of src/transform.py raises \<open>AttributeError\<close>, while the copy in the test
  file skips the conversion of that column and returns a table without rows. The two
  differ only in this way, the one raising where the other returns
  (\<open>variants_differ_only_where_unguarded_raises\<close>), and agree on every table whose two
  columns have dtype \<open>object\<close> (\<open>variants_agree_on_text_columns\<close>).
\<close>

theorem variants_differ_on_all_null_emails:
  "run clean_dataframe all_null_emails = Inl AttributeError \<and>
   run clean_dataframe_test all_null_emails =
     Inr \<lparr>name_dtype = Object, email_dtype = Float64, rows = []\<rparr>"
  by code_simp

text \<open>
  C8. When the function of src/transform.py returns a table, applying it to that
  table returns the same table: no record is removed and no field changes.
\<close>

theorem clean_dataframe_idempotent:
  assumes "run clean_dataframe df = Inr out"
  shows "run clean_dataframe out = Inr out"
proof -
  from assms have out: "out = cleaned df"
    by (simp add: run_clean_dataframe_Inr)
  have "cleaned (cleaned df) = cleaned df"
    by (simp add: cleaned_def cleaned_rows_idem)
  then show ?thesis by (simp add: out run_clean_dataframe_Inr) (simp add: cleaned_def)
qed

theorem clean_dataframe_idempotent_witness:
  "run clean_dataframe customers = Inr customers_cleaned \<and>
   run clean_dataframe customers_cleaned = Inr customers_cleaned"
  using clean_dataframe_idempotent[OF customers_run] customers_run by (intro conjI)

text \<open>
  C9. A call of either variant on a reference \<open>a\<close> into a store \<open>h\<close> leaves every
  object of \<open>h\<close> as it was, the argument in particular, also when the call raises; a
  reference it returns points to an object that did not exist before the call; and the
  table returned depends on the argument only.
\<close>

theorem input_not_mutated:
  assumes "f \<in> {clean_dataframe, clean_dataframe_test}"
    and "a < length h"
    and "f h a = (h', res)"
  shows "take (length h) h' = h \<and> h' ! a = h ! a \<and>
         (case res of Inl e \<Rightarrow> True | Inr r \<Rightarrow> length h \<le> r \<and> r < length h' \<and> r \<noteq> a) \<and>
         outcome (f h a) = run f (h ! a)"
proof -
  have grow: "\<exists>ext. fst (f h a) = h @ ext \<and>
     (\<forall>r. snd (f h a) = Inr r \<longrightarrow> length h \<le> r \<and> r < length h + length ext)"
    using assms(1) heap_grows[of h a] heap_grows_test[of h a] by auto
  then obtain ext where h': "h' = h @ ext"
    and r: "\<And>r. res = Inr r \<Longrightarrow> length h \<le> r \<and> r < length h + length ext"
    using assms(3) by auto
  have same: "outcome (f h a) = run f (h ! a)"
    by (rule outcome_run[OF assms(1)])
  have "h' ! a = h ! a" using assms(2) by (simp add: h' nth_append)
  moreover have "case res of Inl e \<Rightarrow> True | Inr r \<Rightarrow> length h \<le> r \<and> r < length h' \<and> r \<noteq> a"
    using r assms(2) by (cases res) (auto simp: h')
  ultimately show ?thesis using same by (simp add: h')
qed

theorem input_not_mutated_witness:
  "clean_dataframe \<in> {clean_dataframe, clean_dataframe_test :: nat heap \<Rightarrow> _} \<and>
   0 < length [customers, blank_pair] \<and>
   fst (clean_dataframe [customers, blank_pair] 0) ! 0 = customers \<and>
   snd (clean_dataframe [customers, blank_pair] 0) = Inr 6 \<and>
   fst (clean_dataframe [customers, blank_pair] 0) ! 6 = customers_cleaned"
proof -
  let ?h = "[customers, blank_pair]"
  have h2: "0 < length ?h" by simp
  obtain h' res where c: "clean_dataframe ?h 0 = (h', res)" by fastforce
  from input_not_mutated[OF either_variant h2 c]
  have keep: "h' ! 0 = ?h ! 0" and out: "outcome (clean_dataframe ?h 0) = run clean_dataframe (?h ! 0)"
    by simp_all
  have res: "res = Inr 6"
    using c by (simp add: clean_dataframe_eq customers_def)
  have "h' ! 6 = customers_cleaned"
    using out customers_run by (simp add: c res outcome_def)
  then show ?thesis using either_variant keep res by (simp add: c)
qed

text \<open>
  C10. Take either variant and a table it returns a result for. The output has at most
  as many records as the input.
\<close>

theorem never_more_records:
  assumes "f \<in> {clean_dataframe, clean_dataframe_test}"
    and "run f df = Inr out"
  shows "length (rows out) \<le> length (rows df)"
  using returned_rows[OF assms] cleaned_rows_length[of "rows df"] by simp

theorem never_more_records_witness:
  "clean_dataframe \<in> {clean_dataframe, clean_dataframe_test :: nat heap \<Rightarrow> _} \<and>
   run clean_dataframe customers = Inr customers_cleaned \<and>
   length (rows customers_cleaned) = 2 \<and> length (rows customers) = 5"
proof -
  have l: "length (rows customers_cleaned) = 2" "length (rows customers) = 5"
    by (simp_all add: customers_def customers_cleaned_def)
  from never_more_records[OF either_variant customers_run]
  show ?thesis using either_variant customers_run l by (intro conjI)
qed

end
